theory Spec2Isabelle
  imports Complex_Main
begin

section \<open>Values shared by the hazard checks of app.py\<close>

text \<open>
  The three severity labels are the string literals \<^verbatim>\<open>"low"\<close>, \<^verbatim>\<open>"moderate"\<close> and
  \<^verbatim>\<open>"high"\<close>; no check of app.py produces any other label.
\<close>

datatype severity = Low | Moderate | High

text \<open>
  A Python float. The numbers the feeds deliver are finite and are modelled as reals
  (every threshold of app.py, 4.5, 6.5, 7.0, ..., is a double, so comparing a double with
  it is comparing the reals; adding doubles rounds, so \<^verbatim>\<open>sum\<close> is not taken to be the sum
  of the reals, see \<open>float_sum\<close> below). Only a coordinate typed by the user can be infinite or not a
  number, since \<^verbatim>\<open>float("inf")\<close> and \<^verbatim>\<open>float("nan")\<close> succeed.
\<close>

datatype pyfloat = Finite real | PInf | NInf | NaN

text \<open>
  Every function of app.py catches its exceptions and returns \<^verbatim>\<open>{"error": str(e)}\<close>.
  \<open>Raised msg\<close> is an exception raised by a request or by the decoding of its answer,
  with its message; the other constructors are the errors app.py builds or provokes
  itself.
\<close>

datatype error =
    Raised string
  | Type_error
  | Math_domain_error
  | Could_not_geocode
  | No_snow_or_weather_data
  | Quake_feed_error error
  | Geocode_failure error

subsection \<open>What the services answer\<close>

text \<open>One feature of the USGS GeoJSON answer; a JSON null or a missing key is \<open>None\<close>.\<close>

record quake_event =
  ev_mag :: "real option"
  ev_place :: "string option"
  ev_time :: "int option"

text \<open>The \<^verbatim>\<open>current_weather\<close> object of Open-Meteo (an absent object has both fields absent).\<close>

record current_weather =
  cw_temperature :: "real option"
  cw_windspeed :: "real option"

text \<open>The answer to the snowfall request: \<^verbatim>\<open>daily.snowfall_sum\<close> and \<^verbatim>\<open>current_weather\<close>.\<close>

record snow_answer =
  sa_snowfall_sum :: "real option list option"
  sa_current :: current_weather

text \<open>The daily series of the ERA5 archive that the wildfire check reads.\<close>

record era5_answer =
  era_precipitation_sum :: "real option list"
  era_temperature_2m_max :: "real option list"

text \<open>An item of \<^verbatim>\<open>find_schools\<close> or \<^verbatim>\<open>find_hospitals\<close>.\<close>

record resource =
  res_name :: string
  res_distance_km :: real

text \<open>
  The world outside the program: the answer of every request app.py makes, as a function
  of what the request URL carries. \<open>Inl e\<close> is a request that raised (timeout, refused
  connection, undecodable or ill-typed JSON). The two calls of \<^verbatim>\<open>get_weather\<close> (by the
  assessment and by the wildfire check) are two requests and may be answered differently.
  \<^verbatim>\<open>find_schools\<close> and \<^verbatim>\<open>find_hospitals\<close> rank Overpass items by distance; only their
  outcome (an error or the ranked list) is used downstream and it is taken as given.

  The last field is not a service but the interpreter: \<open>float_sum\<close> is the builtin
  \<^verbatim>\<open>sum\<close> on a list of numbers. It adds doubles and rounds, so its value on a list is not
  the sum of the reals in general; nothing is assumed about it, and whatever is proved
  holds for the builtin of every interpreter.
\<close>

record world =
  usgs :: "pyfloat \<Rightarrow> pyfloat \<Rightarrow> nat \<Rightarrow> error + quake_event list"
  weather_now :: "pyfloat \<Rightarrow> pyfloat \<Rightarrow> error + current_weather"
  weather_for_wildfire :: "pyfloat \<Rightarrow> pyfloat \<Rightarrow> error + current_weather"
  find_schools :: "pyfloat \<Rightarrow> pyfloat \<Rightarrow> error + resource list"
  find_hospitals :: "pyfloat \<Rightarrow> pyfloat \<Rightarrow> error + resource list"
  snow_forecast :: "pyfloat \<Rightarrow> pyfloat \<Rightarrow> error + snow_answer"
  wind_forecast :: "pyfloat \<Rightarrow> pyfloat \<Rightarrow> error + real option list"
  coastline :: "pyfloat \<Rightarrow> pyfloat \<Rightarrow> error + (real \<times> real) list"
  era5 :: "pyfloat \<Rightarrow> pyfloat \<Rightarrow> error + era5_answer"
  rain_forecast :: "pyfloat \<Rightarrow> pyfloat \<Rightarrow> error + real option list"
  rain_archive :: "pyfloat \<Rightarrow> pyfloat \<Rightarrow> error + real option list"
  float_sum :: "real list \<Rightarrow> real"

section \<open>check\_earthquake\<close>

record recent_quake =
  rq_mag :: real
  rq_place :: "string option"
  rq_time :: "int option"

record quake_info =
  eq_possible :: bool
  eq_magnitude_estimate :: real
  eq_count :: nat
  eq_recent :: "recent_quake list"
  eq_raw :: "quake_event list"

text \<open>
  \<^verbatim>\<open>x or d\<close> on a number or null: null (or a missing key) and the falsy number 0 give
  \<open>d\<close>, any other number gives itself. \<^verbatim>\<open>props.get("mag") or 0\<close> is \<open>py_or m 0\<close>.
\<close>

definition py_or :: "real option \<Rightarrow> real \<Rightarrow> real" where
  "py_or x d = (case x of None \<Rightarrow> d | Some v \<Rightarrow> (if v = 0 then d else v))"

abbreviation mag_or_0 :: "real option \<Rightarrow> real" where
  "mag_or_0 m \<equiv> py_or m 0"

text \<open>The \<^verbatim>\<open>for ev in events\<close> loop, with its two variables \<^verbatim>\<open>max_mag\<close> and \<^verbatim>\<open>recent\<close>.\<close>

fun quake_loop :: "quake_event list \<Rightarrow> real \<Rightarrow> recent_quake list \<Rightarrow> real \<times> recent_quake list" where
  "quake_loop [] max_mag recent = (max_mag, recent)"
| "quake_loop (ev # events) max_mag recent =
     (let mag = mag_or_0 (ev_mag ev);
          recent' = recent @ [\<lparr>rq_mag = mag, rq_place = ev_place ev, rq_time = ev_time ev\<rparr>]
      in quake_loop events (if mag > max_mag then mag else max_mag) recent')"

definition check_earthquake :: "world \<Rightarrow> pyfloat \<Rightarrow> pyfloat \<Rightarrow> nat \<Rightarrow> error + quake_info" where
  "check_earthquake w lat lon radius_km =
     (case usgs w lat lon radius_km of
        Inl e \<Rightarrow> Inl e
      | Inr events \<Rightarrow>
          (case quake_loop events 0 [] of
             (max_mag, recent) \<Rightarrow>
               Inr \<lparr>eq_possible = (max_mag \<ge> 4.5),
                    eq_magnitude_estimate = max_mag,
                    eq_count = length events,
                    eq_recent = recent,
                    eq_raw = events\<rparr>))"

section \<open>get\_weather\<close>

record weather_info =
  wi_temperature_c :: "real option"
  wi_wind_kph :: "real option"
  wi_raw :: current_weather

text \<open>The request is the first argument: the function has two callers, each with its own request.\<close>

definition get_weather ::
  "(pyfloat \<Rightarrow> pyfloat \<Rightarrow> error + current_weather) \<Rightarrow> pyfloat \<Rightarrow> pyfloat \<Rightarrow> error + weather_info" where
  "get_weather request lat lon =
     (case request lat lon of
        Inl e \<Rightarrow> Inl e
      | Inr cur \<Rightarrow>
          Inr \<lparr>wi_temperature_c = cw_temperature cur, wi_wind_kph = cw_windspeed cur, wi_raw = cur\<rparr>)"

section \<open>check\_snowfall\<close>

record snow_info =
  sn_possible :: bool
  sn_max_snowfall :: real
  sn_severity :: severity
  sn_raw :: snow_answer

text \<open>\<^verbatim>\<open>max\<close> of a non-empty list of numbers, as the builtin scans it from the first element.\<close>

definition py_max :: "real \<Rightarrow> real list \<Rightarrow> real" where
  "py_max x xs = fold (\<lambda>y m. if y > m then y else m) xs x"

definition check_snowfall :: "world \<Rightarrow> pyfloat \<Rightarrow> pyfloat \<Rightarrow> error + snow_info" where
  "check_snowfall w lat lon =
     (case snow_forecast w lat lon of
        Inl e \<Rightarrow> Inl e
      | Inr d \<Rightarrow>
          (case sa_snowfall_sum d of
             Some (v # vs) \<Rightarrow>
               (let max_snow = py_max (py_or v 0) (map (\<lambda>v. py_or v 0) vs);
                    sev = (if max_snow \<ge> 10 then High else if max_snow \<ge> 2 then Moderate else Low)
                in Inr \<lparr>sn_possible = (max_snow > 0), sn_max_snowfall = max_snow,
                        sn_severity = sev, sn_raw = d\<rparr>)
           | _ \<Rightarrow>
               (case cw_temperature (sa_current d) of
                  None \<Rightarrow> Inl No_snow_or_weather_data
                | Some temp \<Rightarrow>
                    (let sev = (if temp \<le> - 5 then Moderate else if temp \<le> 0 then Low else Low)
                     in Inr \<lparr>sn_possible = (temp \<le> 0), sn_max_snowfall = 0,
                             sn_severity = sev, sn_raw = d\<rparr>))))"

section \<open>check\_hurricane\<close>

record hurricane_info =
  hu_possible :: bool
  hu_max_wind_kph :: real
  hu_severity :: severity
  hu_raw :: "real option list"

text \<open>
  The numbers of a series, or \<open>None\<close> when it holds a null: \<^verbatim>\<open>max\<close>, \<^verbatim>\<open>sum\<close> and the
  comparisons raise TypeError on null.
\<close>

fun numbers :: "real option list \<Rightarrow> real list option" where
  "numbers [] = Some []"
| "numbers (None # xs) = None"
| "numbers (Some x # xs) = (case numbers xs of None \<Rightarrow> None | Some ys \<Rightarrow> Some (x # ys))"

definition check_hurricane :: "world \<Rightarrow> pyfloat \<Rightarrow> pyfloat \<Rightarrow> error + hurricane_info" where
  "check_hurricane w lat lon =
     (case wind_forecast w lat lon of
        Inl e \<Rightarrow> Inl e
      | Inr winds \<Rightarrow>
          (case numbers winds of
             None \<Rightarrow> Inl Type_error
           | Some ns \<Rightarrow>
               (let max_wind = (case ns of [] \<Rightarrow> 0 | x # xs \<Rightarrow> py_max x xs);
                    sev = (if max_wind \<ge> 100 then High else if max_wind \<ge> 75 then Moderate else Low)
                in Inr \<lparr>hu_possible = (max_wind \<ge> 50), hu_max_wind_kph = max_wind,
                        hu_severity = sev, hu_raw = winds\<rparr>)))"

section \<open>haversine\_km\<close>

definition radians :: "real \<Rightarrow> real" where
  "radians x = x * pi / 180"

text \<open>
  \<^verbatim>\<open>math.sqrt\<close> raises on a negative argument and \<^verbatim>\<open>math.asin\<close> outside [-1, 1]; the
  trigonometric functions are those of the reals (the rounding of doubles is not modelled).
\<close>

definition haversine_km :: "real \<Rightarrow> real \<Rightarrow> real \<Rightarrow> real \<Rightarrow> error + real" where
  "haversine_km lat1 lon1 lat2 lon2 =
     (let lon1' = radians lon1; lat1' = radians lat1; lon2' = radians lon2; lat2' = radians lat2;
          dlon = lon2' - lon1';
          dlat = lat2' - lat1';
          a = (sin (dlat / 2))\<^sup>2 + cos lat1' * cos lat2' * (sin (dlon / 2))\<^sup>2
      in if a < 0 \<or> 1 < a then Inl Math_domain_error
         else Inr (6371 * (2 * arcsin (sqrt a))))"

text \<open>
  The same function from a coordinate that may be infinite or not a number (the other
  point is a centre Overpass returned): \<^verbatim>\<open>math.sin\<close> and \<^verbatim>\<open>math.cos\<close> raise on an
  infinity and pass a NaN on.
\<close>

fun haversine_km_from :: "pyfloat \<Rightarrow> pyfloat \<Rightarrow> real \<times> real \<Rightarrow> error + pyfloat" where
  "haversine_km_from (Finite lat) (Finite lon) (lat2, lon2) =
     (case haversine_km lat lon lat2 lon2 of Inl e \<Rightarrow> Inl e | Inr d \<Rightarrow> Inr (Finite d))"
| "haversine_km_from NaN (Finite lon) p = Inr NaN"
| "haversine_km_from (Finite lat) NaN p = Inr NaN"
| "haversine_km_from NaN NaN p = Inr NaN"
| "haversine_km_from lat lon p = Inl Math_domain_error"

section \<open>check\_tsunami\<close>

record tsunami_info =
  ts_possible :: bool
  ts_max_quake_magnitude :: real
  ts_quake_count :: nat
  ts_min_coast_distance_km :: "pyfloat option"
  ts_severity :: severity
  ts_recent_quakes :: "recent_quake list"
  ts_quake_raw :: quake_info

text \<open>\<^verbatim>\<open>x < y\<close> and \<^verbatim>\<open>x <= y\<close> on floats: false whenever a NaN is compared.\<close>

fun py_less :: "pyfloat \<Rightarrow> pyfloat \<Rightarrow> bool" where
  "py_less NaN y = False"
| "py_less x NaN = False"
| "py_less (Finite x) (Finite y) = (x < y)"
| "py_less NInf y = (y \<noteq> NInf)"
| "py_less x PInf = (x \<noteq> PInf)"
| "py_less x y = False"

definition py_less_eq :: "pyfloat \<Rightarrow> pyfloat \<Rightarrow> bool" where
  "py_less_eq x y = (x \<noteq> NaN \<and> y \<noteq> NaN \<and> (x = y \<or> py_less x y))"

definition py_min :: "pyfloat \<Rightarrow> pyfloat list \<Rightarrow> pyfloat" where
  "py_min x xs = fold (\<lambda>y m. if py_less y m then y else m) xs x"

text \<open>The list comprehension over \<^verbatim>\<open>coast_points\<close>: the first call that raises ends it.\<close>

fun coast_dists :: "pyfloat \<Rightarrow> pyfloat \<Rightarrow> (real \<times> real) list \<Rightarrow> error + pyfloat list" where
  "coast_dists lat lon [] = Inr []"
| "coast_dists lat lon (p # ps) =
     (case haversine_km_from lat lon p of
        Inl e \<Rightarrow> Inl e
      | Inr d \<Rightarrow> (case coast_dists lat lon ps of Inl e \<Rightarrow> Inl e | Inr ds \<Rightarrow> Inr (d # ds)))"

text \<open>The inner \<^verbatim>\<open>try\<close> block: any exception leaves \<^verbatim>\<open>min_coast_dist = None\<close>.\<close>

definition min_coast_dist :: "world \<Rightarrow> pyfloat \<Rightarrow> pyfloat \<Rightarrow> pyfloat option" where
  "min_coast_dist w lat lon =
     (case coastline w lat lon of
        Inl e \<Rightarrow> None
      | Inr coast_points \<Rightarrow>
          (case coast_dists lat lon coast_points of
             Inl e \<Rightarrow> None
           | Inr [] \<Rightarrow> None
           | Inr (d # ds) \<Rightarrow> Some (py_min d ds)))"

definition check_tsunami :: "world \<Rightarrow> pyfloat \<Rightarrow> pyfloat \<Rightarrow> nat \<Rightarrow> real \<Rightarrow> error + tsunami_info" where
  "check_tsunami w lat lon quake_radius_km quake_mag_threshold =
     (case check_earthquake w lat lon quake_radius_km of
        Inl e \<Rightarrow> Inl (Quake_feed_error e)
      | Inr quake_info \<Rightarrow>
          (let max_mag = eq_magnitude_estimate quake_info;
               quake_count = eq_count quake_info;
               recent = eq_recent quake_info;
               mcd = min_coast_dist w lat lon;
               (tsunami_possible, severity) =
                 (if max_mag \<ge> quake_mag_threshold \<and>
                     (case mcd of None \<Rightarrow> True | Some d \<Rightarrow> py_less_eq d (Finite 100))
                  then (True, if max_mag \<ge> 7.0 then High else Moderate)
                  else if max_mag \<ge> quake_mag_threshold then (True, Moderate)
                  else (False, Low))
           in Inr \<lparr>ts_possible = tsunami_possible, ts_max_quake_magnitude = max_mag,
                   ts_quake_count = quake_count, ts_min_coast_distance_km = mcd,
                   ts_severity = severity, ts_recent_quakes = recent,
                   ts_quake_raw = quake_info\<rparr>))"

section \<open>check\_wildfire\<close>

record wildfire_info =
  wf_precip_last7_mm :: real
  wf_max_temp_last7_c :: "real option"
  wf_wind_kph_now :: real
  wf_temp_now_c :: "real option"
  wf_severity :: severity
  wf_raw_historical :: era5_answer
  wf_raw_current_weather :: "error + weather_info"

text \<open>
  \<^verbatim>\<open>curw.get("wind_kph") or 0\<close> and \<^verbatim>\<open>curw.get("temperature_c")\<close>: on the error
  dictionary of \<^verbatim>\<open>get_weather\<close> both keys are missing.
\<close>

definition check_wildfire :: "world \<Rightarrow> pyfloat \<Rightarrow> pyfloat \<Rightarrow> error + wildfire_info" where
  "check_wildfire w lat lon =
     (case era5 w lat lon of
        Inl e \<Rightarrow> Inl e
      | Inr d \<Rightarrow>
          (let precip = era_precipitation_sum d;
               temp_max = era_temperature_2m_max d;
               precip_last7 = float_sum w (map (\<lambda>p. py_or p 0) precip);
               max_temp_last7 =
                 (case temp_max of
                    [] \<Rightarrow> None
                  | t # ts \<Rightarrow> Some (py_max (py_or t (- 999)) (map (\<lambda>t. py_or t (- 999)) ts)));
               curw = get_weather (weather_for_wildfire w) lat lon;
               wind_kph = py_or (case curw of Inl e \<Rightarrow> None | Inr c \<Rightarrow> wi_wind_kph c) 0;
               temp_now = (case curw of Inl e \<Rightarrow> None | Inr c \<Rightarrow> wi_temperature_c c);
               sev =
                 (if precip_last7 < 5 \<and> (case max_temp_last7 of None \<Rightarrow> False | Some t \<Rightarrow> t \<ge> 30)
                     \<and> wind_kph \<ge> 30
                  then High
                  else if precip_last7 < 10 \<and> wind_kph \<ge> 20 then Moderate
                  else Low)
           in Inr \<lparr>wf_precip_last7_mm = precip_last7, wf_max_temp_last7_c = max_temp_last7,
                   wf_wind_kph_now = wind_kph, wf_temp_now_c = temp_now, wf_severity = sev,
                   wf_raw_historical = d, wf_raw_current_weather = curw\<rparr>))"

section \<open>check\_flood\<close>

record flood_info =
  fl_possible :: bool
  fl_severity :: severity
  fl_forecast_24h_mm :: real
  fl_recent_24h_mm_approx :: real
  fl_precip_last7_mm :: "real option"

text \<open>
  \<^verbatim>\<open>sum\<close> of a series: TypeError (\<open>None\<close>) when it holds a null, and otherwise what the
  builtin makes of its numbers.
\<close>

definition py_sum :: "(real list \<Rightarrow> real) \<Rightarrow> real option list \<Rightarrow> real option" where
  "py_sum builtin_sum xs = (case numbers xs of None \<Rightarrow> None | Some ns \<Rightarrow> Some (builtin_sum ns))"

text \<open>
  \<^verbatim>\<open>precip_hours[:24]\<close> is \<open>take 24\<close> and \<^verbatim>\<open>precip_hours[-24:]\<close> the last 24 entries (all
  of them when there are fewer). A null in the first 24 hours raises out of the function; a
  null in the last 24 is caught by the inner \<^verbatim>\<open>try\<close> and leaves \<^verbatim>\<open>recent_24h = 0.0\<close>; a
  failure of the archive request leaves \<^verbatim>\<open>sum7 = None\<close>.
\<close>

definition check_flood :: "world \<Rightarrow> pyfloat \<Rightarrow> pyfloat \<Rightarrow> error + flood_info" where
  "check_flood w lat lon =
     (case rain_forecast w lat lon of
        Inl e \<Rightarrow> Inl e
      | Inr precip_hours \<Rightarrow>
          (case (if precip_hours \<noteq> [] then py_sum (float_sum w) (take 24 precip_hours) else Some 0) of
             None \<Rightarrow> Inl Type_error
           | Some forecast_24h \<Rightarrow>
               (let recent_24h =
                      (if precip_hours \<noteq> []
                       then (case py_sum (float_sum w) (drop (length precip_hours - 24) precip_hours) of
                               None \<Rightarrow> 0 | Some r \<Rightarrow> r)
                       else 0);
                    sum7 =
                      (case rain_archive w lat lon of
                         Inl e \<Rightarrow> None
                       | Inr precip7_list \<Rightarrow> Some (float_sum w (map (\<lambda>v. py_or v 0) precip7_list)));
                    severity =
                      (if forecast_24h \<ge> 50 \<or> recent_24h \<ge> 50 then High
                       else if (forecast_24h \<ge> 20 \<or> recent_24h \<ge> 20)
                               \<or> (case sum7 of None \<Rightarrow> False | Some s \<Rightarrow> s \<ge> 100)
                       then Moderate
                       else Low)
                in Inr \<lparr>fl_possible = (severity \<noteq> Low), fl_severity = severity,
                        fl_forecast_24h_mm = forecast_24h, fl_recent_24h_mm_approx = recent_24h,
                        fl_precip_last7_mm = sum7\<rparr>)))"

section \<open>collect\_signals\_for\_location\<close>

subsection \<open>Resolving the input\<close>

text \<open>
  Strings are lists of characters. \<^verbatim>\<open>str.strip()\<close> removes the white space of both ends
  (for ASCII: the codes 9 to 13 and 28 to 32) and \<^verbatim>\<open>str.split(",")\<close> cuts at every comma,
  keeping empty fields.
\<close>

definition is_space :: "char \<Rightarrow> bool" where
  "is_space c = (let n = (of_char c :: nat) in (9 \<le> n \<and> n \<le> 13) \<or> (28 \<le> n \<and> n \<le> 32))"

definition strip :: "string \<Rightarrow> string" where
  "strip s = rev (dropWhile is_space (rev (dropWhile is_space s)))"

fun split_on :: "char \<Rightarrow> string \<Rightarrow> string list" where
  "split_on sep [] = [[]]"
| "split_on sep (c # cs) =
     (if c = sep then [] # split_on sep cs
      else (case split_on sep cs of
              [] \<Rightarrow> [[c]]
            | p # ps \<Rightarrow> (c # p) # ps))"

text \<open>
  The first block of the function: \<^verbatim>\<open>lat\<close> and \<^verbatim>\<open>lon\<close> after it, or \<open>None\<close> when
  \<^verbatim>\<open>lat is None\<close>. The builtin \<^verbatim>\<open>float\<close> is a parameter (\<open>None\<close> is its ValueError);
  the tuple assignment raises unless the slice \<^verbatim>\<open>[:2]\<close> has two fields, and the bare
  \<^verbatim>\<open>except\<close> resets \<^verbatim>\<open>lat\<close> whichever conversion raised.
\<close>

definition literal_coordinate :: "(string \<Rightarrow> pyfloat option) \<Rightarrow> string \<Rightarrow> (pyfloat \<times> pyfloat) option" where
  "literal_coordinate float_of place_or_latlon =
     (if CHR '','' \<in> set place_or_latlon then
        (case take 2 (split_on CHR '','' place_or_latlon) of
           [p0, p1] \<Rightarrow>
             (case float_of (strip p0) of
                None \<Rightarrow> None
              | Some lat \<Rightarrow>
                  (case float_of (strip p1) of
                     None \<Rightarrow> None
                   | Some lon \<Rightarrow> Some (lat, lon)))
         | _ \<Rightarrow> None)
      else None)"

text \<open>
  \<^verbatim>\<open>geocode_place\<close>: the geocoder is a parameter; it raises (\<open>Inl\<close>), finds nothing
  (\<open>Inr None\<close>) or finds a location.
\<close>

definition geocode_place ::
  "(string \<Rightarrow> error + (pyfloat \<times> pyfloat) option) \<Rightarrow> string \<Rightarrow> error + pyfloat \<times> pyfloat" where
  "geocode_place geolocator place =
     (case geolocator place of
        Inl e \<Rightarrow> Inl e
      | Inr None \<Rightarrow> Inl Could_not_geocode
      | Inr (Some loc) \<Rightarrow> Inr loc)"

subsection \<open>Final severities\<close>

definition quake_severity_label :: "real option \<Rightarrow> severity" where
  "quake_severity_label mag =
     (case mag of
        None \<Rightarrow> Low
      | Some m \<Rightarrow> (if m \<ge> 6.5 then High else if m \<ge> 4.5 then Moderate else Low))"

text \<open>\<^verbatim>\<open>severities[k] or "low"\<close>, where \<^verbatim>\<open>.get("severity")\<close> of an error dictionary is None.\<close>

definition or_low :: "severity option \<Rightarrow> severity" where
  "or_low s = (case s of None \<Rightarrow> Low | Some v \<Rightarrow> v)"

text \<open>
  The dictionaries \<^verbatim>\<open>severities\<close> and \<^verbatim>\<open>final_severities\<close>; the second one, in its
  insertion order, is what the function returns and iterates over.
\<close>

definition final_severities ::
  "error + quake_info \<Rightarrow> error + snow_info \<Rightarrow> error + hurricane_info \<Rightarrow> error + tsunami_info
     \<Rightarrow> error + wildfire_info \<Rightarrow> (string \<times> severity) list" where
  "final_severities earthquake snowfall hurricane tsunami wildfire =
     (let s_earthquake = (case earthquake of Inl e \<Rightarrow> None | Inr r \<Rightarrow> Some (eq_magnitude_estimate r));
          s_snowfall = (case snowfall of Inl e \<Rightarrow> None | Inr r \<Rightarrow> Some (sn_severity r));
          s_hurricane = (case hurricane of Inl e \<Rightarrow> None | Inr r \<Rightarrow> Some (hu_severity r));
          s_tsunami = (case tsunami of Inl e \<Rightarrow> None | Inr r \<Rightarrow> Some (ts_severity r));
          s_wildfire = (case wildfire of Inl e \<Rightarrow> None | Inr r \<Rightarrow> Some (wf_severity r));
          quake_sev = quake_severity_label s_earthquake
      in [(''earthquake'', quake_sev),
          (''snowfall'', or_low s_snowfall),
          (''hurricane'', or_low s_hurricane),
          (''tsunami'', or_low s_tsunami),
          (''wildfire'', or_low s_wildfire)])"

subsection \<open>The action plan\<close>

text \<open>
  A line of the plan. \<open>Header d sev\<close> is \<^verbatim>\<open>"**{d.upper()} - severity: {sev.upper()}**"\<close>,
  \<open>Directive t\<close> the fixed sentence \<open>t\<close>, \<open>Hospitals_line l hs\<close> and \<open>Shelters_line l ss\<close> are
  \<^verbatim>\<open>"- {l}: {', '.join(...)}."\<close> over the entries \<^verbatim>\<open>"{name} ({distance_km} km)"\<close> of the
  listed resources, and \<open>Tsunami_warning\<close> is the sentence "Earthquake may generate tsunami
  risk ...".
\<close>

datatype plan_line =
    Header string severity
  | Directive string
  | Hospitals_line string "resource list"
  | Shelters_line string "resource list"
  | Tsunami_warning

definition add_common_resources ::
  "error + resource list \<Rightarrow> error + resource list \<Rightarrow> resource list \<times> resource list" where
  "add_common_resources hospitals shelters =
     (let hosp_list = (case hospitals of Inl e \<Rightarrow> [] | Inr hs \<Rightarrow> (if hs \<noteq> [] then take 3 hs else []));
          shelter_list = (case shelters of Inl e \<Rightarrow> [] | Inr ss \<Rightarrow> (if ss \<noteq> [] then take 3 ss else []))
      in (hosp_list, shelter_list))"

text \<open>The lines one call of \<^verbatim>\<open>plan_for_disaster\<close> appends to \<^verbatim>\<open>action_plan\<close>.\<close>

definition plan_for_disaster ::
  "(string \<times> severity) list \<Rightarrow> error + resource list \<Rightarrow> error + resource list
     \<Rightarrow> string \<Rightarrow> severity \<Rightarrow> plan_line list" where
  "plan_for_disaster final_sevs hospitals shelters d_type sev =
     (if sev = Low then []
      else
        (case add_common_resources hospitals shelters of
           (hosp_list, shelter_list) \<Rightarrow>
             Header d_type sev #
             (if d_type = ''earthquake'' then
                [Directive ''- Drop, cover, and hold on. Stay away from windows and heavy furniture.'',
                 Directive ''- After shaking stops, move to open areas; avoid damaged structures.'']
                @ (if hosp_list \<noteq> [] then [Hospitals_line ''Nearby hospitals (top)'' hosp_list] else [])
                @ (if shelter_list \<noteq> [] then [Shelters_line ''Nearby relief shelters (top)'' shelter_list] else [])
                @ (if map_of final_sevs ''tsunami'' = Some High \<or> map_of final_sevs ''tsunami'' = Some Moderate
                   then [Tsunami_warning] else [])
              else if d_type = ''tsunami'' then
                [Directive ''- If near the coast, move to higher ground immediately; follow local evacuation routes.'']
                @ (if hosp_list \<noteq> [] then [Hospitals_line ''Hospitals to consider'' hosp_list] else [])
                @ (if shelter_list \<noteq> [] then [Shelters_line ''Shelters'' shelter_list] else [])
              else if d_type = ''hurricane'' then
                [Directive ''- Secure loose outdoor items, close shutters, move to a central interior room on lowest safe floor.'',
                 Directive ''- Have emergency kit (water, meds, flashlight, radio).'']
                @ (if hosp_list \<noteq> [] then [Hospitals_line ''Hospitals'' hosp_list] else [])
                @ (if shelter_list \<noteq> [] then [Shelters_line ''Shelters'' shelter_list] else [])
              else if d_type = ''snowfall'' then
                [Directive ''- Avoid travel during heavy snowfall; if must travel, carry warm clothing and emergency supplies.'',
                 Directive ''- Check roof loads and clear snow safely if necessary.'']
                @ (if hosp_list \<noteq> [] then [Hospitals_line ''Hospitals (in case of emergencies)'' hosp_list] else [])
                @ (if shelter_list \<noteq> [] then [Shelters_line ''Shelters'' shelter_list] else [])
              else if d_type = ''wildfire'' then
                [Directive ''- If smoke or fire is nearby, evacuate immediately following local authorities' instructions.'',
                 Directive ''- Close windows/vents; prepare to evacuate early with important documents and medications.'']
                @ (if hosp_list \<noteq> [] then [Hospitals_line ''Hospitals (for smoke/trauma)'' hosp_list] else [])
                @ (if shelter_list \<noteq> [] then [Shelters_line ''Shelters'' shelter_list] else [])
              else [])))"

text \<open>\<^verbatim>\<open>for d, sev in final_severities.items(): plan_for_disaster(d, sev)\<close>.\<close>

definition action_plan ::
  "(string \<times> severity) list \<Rightarrow> error + resource list \<Rightarrow> error + resource list \<Rightarrow> plan_line list" where
  "action_plan final_sevs hospitals shelters =
     concat (map (\<lambda>(d, sev). plan_for_disaster final_sevs hospitals shelters d sev) final_sevs)"

subsection \<open>The returned dictionary\<close>

text \<open>A value of the dictionary \<^verbatim>\<open>combined\<close>; the dictionary is the list of its items in order.\<close>

datatype entry =
    Number_entry pyfloat
  | Earthquake_entry "error + quake_info"
  | Weather_entry "error + weather_info"
  | Resources_entry "error + resource list"
  | Snowfall_entry "error + snow_info"
  | Hurricane_entry "error + hurricane_info"
  | Tsunami_entry "error + tsunami_info"
  | Wildfire_entry "error + wildfire_info"
  | Severities_entry "(string \<times> severity) list"
  | Plan_entry "plan_line list"

text \<open>The function from the first hazard check on, \<^verbatim>\<open>lat\<close> and \<^verbatim>\<open>lon\<close> being set.\<close>

definition signals_at :: "world \<Rightarrow> pyfloat \<Rightarrow> pyfloat \<Rightarrow> (string \<times> entry) list" where
  "signals_at w lat lon =
     (let earthquake = check_earthquake w lat lon 100;
          weather = get_weather (weather_now w) lat lon;
          shelters = find_schools w lat lon;
          hospitals = find_hospitals w lat lon;
          snowfall = check_snowfall w lat lon;
          hurricane = check_hurricane w lat lon;
          tsunami = check_tsunami w lat lon 300 6.5;
          wildfire = check_wildfire w lat lon;
          final_sevs = final_severities earthquake snowfall hurricane tsunami wildfire
      in [(''lat'', Number_entry lat), (''lon'', Number_entry lon),
          (''earthquake'', Earthquake_entry earthquake), (''weather'', Weather_entry weather),
          (''shelters'', Resources_entry shelters), (''hospitals'', Resources_entry hospitals),
          (''snowfall'', Snowfall_entry snowfall), (''hurricane'', Hurricane_entry hurricane),
          (''tsunami'', Tsunami_entry tsunami), (''wildfire'', Wildfire_entry wildfire),
          (''final_severities'', Severities_entry final_sevs),
          (''action_plan'', Plan_entry (action_plan final_sevs hospitals shelters))])"

text \<open>
  The function up to the geocoder's answer: the coordinate the checks will run at, or the
  error the function returns at once.
\<close>

definition resolve_location ::
  "(string \<Rightarrow> error + (pyfloat \<times> pyfloat) option) \<Rightarrow> (string \<Rightarrow> pyfloat option)
     \<Rightarrow> string \<Rightarrow> error + pyfloat \<times> pyfloat" where
  "resolve_location geolocator float_of place_or_latlon =
     (case literal_coordinate float_of place_or_latlon of
        Some (lat, lon) \<Rightarrow> Inr (lat, lon)
      | None \<Rightarrow>
          (case geocode_place geolocator place_or_latlon of
             Inl e \<Rightarrow> Inl (Geocode_failure e)
           | Inr (lat, lon) \<Rightarrow> Inr (lat, lon)))"

definition collect_signals_for_location ::
  "(string \<Rightarrow> error + (pyfloat \<times> pyfloat) option) \<Rightarrow> (string \<Rightarrow> pyfloat option) \<Rightarrow> world
     \<Rightarrow> string \<Rightarrow> error + (string \<times> entry) list" where
  "collect_signals_for_location geolocator float_of w place_or_latlon =
     (case resolve_location geolocator float_of place_or_latlon of
        Inl e \<Rightarrow> Inl e
      | Inr (lat, lon) \<Rightarrow> Inr (signals_at w lat lon))"

section \<open>Sample answers\<close>

text \<open>
  Concrete answers of the services, on which the theorems below are instantiated. Every
  series that is summed there holds small whole numbers, whose sums are exact in doubles,
  so the builtin \<^verbatim>\<open>sum\<close> is the sum of the reals on them.
\<close>

definition offline :: world where
  "offline =
     \<lparr>usgs = (\<lambda>lat lon r. Inl (Raised ''timeout'')),
      weather_now = (\<lambda>lat lon. Inl (Raised ''timeout'')),
      weather_for_wildfire = (\<lambda>lat lon. Inl (Raised ''timeout'')),
      find_schools = (\<lambda>lat lon. Inl (Raised ''timeout'')),
      find_hospitals = (\<lambda>lat lon. Inl (Raised ''timeout'')),
      snow_forecast = (\<lambda>lat lon. Inl (Raised ''timeout'')),
      wind_forecast = (\<lambda>lat lon. Inl (Raised ''timeout'')),
      coastline = (\<lambda>lat lon. Inl (Raised ''timeout'')),
      era5 = (\<lambda>lat lon. Inl (Raised ''timeout'')),
      rain_forecast = (\<lambda>lat lon. Inl (Raised ''timeout'')),
      rain_archive = (\<lambda>lat lon. Inl (Raised ''timeout'')),
      float_sum = sum_list\<rparr>"

definition quake :: "real option \<Rightarrow> quake_event" where
  "quake m = \<lparr>ev_mag = m, ev_place = Some ''somewhere'', ev_time = Some 0\<rparr>"

definition clinic :: "real \<Rightarrow> resource" where
  "clinic km = \<lparr>res_name = ''clinic'', res_distance_km = km\<rparr>"

text \<open>A geocoder that is out of reach.\<close>

definition geolocator_down :: "string \<Rightarrow> error + (pyfloat \<times> pyfloat) option" where
  "geolocator_down place = Inl (Raised ''timeout'')"

text \<open>
  The builtin \<^verbatim>\<open>float\<close> on four literals. Every other string is left unconverted here,
  so this sample stands for the builtin only on inputs whose fields are among the four or
  are rejected by the builtin too.
\<close>

definition float_sample :: "string \<Rightarrow> pyfloat option" where
  "float_sample s =
     (if s = ''1'' then Some (Finite 1)
      else if s = ''2'' then Some (Finite 2)
      else if s = ''nan'' then Some NaN
      else if s = ''inf'' then Some PInf
      else None)"

section \<open>The vocabulary of the specification\<close>

text \<open>
  The six hazard kinds the specification names, and the key under which the result of a
  kind would stand in the returned dictionary.
\<close>

datatype hazard_kind = Earthquake | Snowfall | Hurricane | Tsunami | Wildfire | Flood

fun hazard_key :: "hazard_kind \<Rightarrow> string" where
  "hazard_key Earthquake = ''earthquake''"
| "hazard_key Snowfall = ''snowfall''"
| "hazard_key Hurricane = ''hurricane''"
| "hazard_key Tsunami = ''tsunami''"
| "hazard_key Wildfire = ''wildfire''"
| "hazard_key Flood = ''flood''"

text \<open>
  The specification's literal coordinate: the input is two floats separated by one comma,
  both finite.
\<close>

definition spec_float_pair :: "(string \<Rightarrow> pyfloat option) \<Rightarrow> string \<Rightarrow> bool" where
  "spec_float_pair float_of s =
     (case split_on CHR '','' s of
        [a, b] \<Rightarrow>
          (case (float_of a, float_of b) of
             (Some (Finite x), Some (Finite y)) \<Rightarrow> True
           | _ \<Rightarrow> False)
      | _ \<Rightarrow> False)"

text \<open>
  The blocks of a plan: a block starts with its header line; the resources a list of lines
  refers to are the entries of its hospital lines and of its shelter lines.
\<close>

fun is_header :: "plan_line \<Rightarrow> bool" where
  "is_header (Header d sev) = True"
| "is_header other = False"

fun hospital_refs :: "plan_line list \<Rightarrow> nat" where
  "hospital_refs [] = 0"
| "hospital_refs (Hospitals_line l hs # ls) = length hs + hospital_refs ls"
| "hospital_refs (other # ls) = hospital_refs ls"

fun shelter_refs :: "plan_line list \<Rightarrow> nat" where
  "shelter_refs [] = 0"
| "shelter_refs (Shelters_line l ss # ls) = length ss + shelter_refs ls"
| "shelter_refs (other # ls) = shelter_refs ls"

section \<open>Properties\<close>

lemma quake_loop_max:
  "fst (quake_loop events m recent) = Max (insert m (set (map (mag_or_0 \<circ> ev_mag) events)))"
proof (induction events arbitrary: m recent)
  case Nil
  show ?case by simp
next
  case (Cons ev events)
  let ?S = "set (map (mag_or_0 \<circ> ev_mag) events)"
  have fin: "finite ?S" by simp
  have "Max (insert (if mag_or_0 (ev_mag ev) > m then mag_or_0 (ev_mag ev) else m) ?S)
        = Max (insert m (insert (mag_or_0 (ev_mag ev)) ?S))"
  proof (cases "mag_or_0 (ev_mag ev) > m")
    case True
    have "Max (insert m (insert (mag_or_0 (ev_mag ev)) ?S))
          = max m (Max (insert (mag_or_0 (ev_mag ev)) ?S))"
      using fin by simp
    also have "\<dots> = Max (insert (mag_or_0 (ev_mag ev)) ?S)"
    proof -
      have "m \<le> Max (insert (mag_or_0 (ev_mag ev)) ?S)"
        using True fin by (meson Max_ge finite_insert insertI1 less_imp_le order_trans)
      then show ?thesis by (simp add: max_def)
    qed
    finally show ?thesis using True by simp
  next
    case False
    have "Max (insert m (insert (mag_or_0 (ev_mag ev)) ?S))
          = Max (insert (mag_or_0 (ev_mag ev)) (insert m ?S))"
      by (simp add: insert_commute)
    also have "\<dots> = max (mag_or_0 (ev_mag ev)) (Max (insert m ?S))"
      using fin by simp
    also have "\<dots> = Max (insert m ?S)"
    proof -
      have "mag_or_0 (ev_mag ev) \<le> Max (insert m ?S)"
        using False fin by (meson Max_ge finite_insert insertI1 not_less order_trans)
      then show ?thesis by (simp add: max_def)
    qed
    finally show ?thesis using False by simp
  qed
  then show ?case
    using Cons.IH by (simp add: Let_def)
qed

lemma quake_loop_recent:
  "map rq_mag (snd (quake_loop events m recent)) = map rq_mag recent @ map (mag_or_0 \<circ> ev_mag) events"
  by (induction events arbitrary: m recent) (simp_all add: Let_def)

subsection \<open>The magnitude estimate of check\_earthquake\<close>

lemma mag_or_0_eq: "mag_or_0 x = (case x of None \<Rightarrow> 0 | Some m \<Rightarrow> m)"
  by (simp add: py_or_def split: option.splits)

text \<open>
  C10. Whenever the earthquake request succeeds, check\_earthquake returns a result (not an
  error) in which the magnitude recorded for each event is the event's magnitude, a null
  magnitude being recorded as 0; the magnitude estimate is the maximum of 0 and these
  recorded magnitudes, hence never negative, and it is 0 when every event has a null or a
  non-positive magnitude; the flag \<open>possible\<close> holds exactly when the estimate is at least 4.5.
\<close>

theorem check_earthquake_magnitude:
  assumes "usgs w lat lon radius_km = Inr events"
  shows "\<exists>q. check_earthquake w lat lon radius_km = Inr q
           \<and> map rq_mag (eq_recent q) = map (\<lambda>ev. case ev_mag ev of None \<Rightarrow> 0 | Some m \<Rightarrow> m) events
           \<and> eq_magnitude_estimate q = Max (insert 0 (set (map rq_mag (eq_recent q))))
           \<and> 0 \<le> eq_magnitude_estimate q
           \<and> ((\<forall>ev \<in> set events. case ev_mag ev of None \<Rightarrow> True | Some m \<Rightarrow> m \<le> 0)
                 \<longrightarrow> eq_magnitude_estimate q = 0)
           \<and> (eq_possible q \<longleftrightarrow> eq_magnitude_estimate q \<ge> 4.5)"
proof -
  obtain mx rc where loop: "quake_loop events 0 [] = (mx, rc)"
    by (cases "quake_loop events 0 []")
  let ?q = "\<lparr>eq_possible = (mx \<ge> 4.5), eq_magnitude_estimate = mx, eq_count = length events,
              eq_recent = rc, eq_raw = events\<rparr>"
  have res: "check_earthquake w lat lon radius_km = Inr ?q"
    using assms loop by (simp add: check_earthquake_def)
  have rec: "map rq_mag rc = map (\<lambda>ev. case ev_mag ev of None \<Rightarrow> 0 | Some m \<Rightarrow> m) events"
    using quake_loop_recent [of events 0 "[]"] loop by (simp add: mag_or_0_eq)
  have mx: "mx = Max (insert 0 (set (map rq_mag rc)))"
    using quake_loop_max [of events 0 "[]"] loop rec by (simp add: mag_or_0_eq)
  have nonneg: "0 \<le> mx"
    unfolding mx by (rule Max_ge) simp_all
  have zero: "mx = 0" if neg: "\<forall>ev \<in> set events. case ev_mag ev of None \<Rightarrow> True | Some m \<Rightarrow> m \<le> 0"
  proof -
    have "mx \<le> 0"
      unfolding mx
    proof (rule Max.boundedI)
      show "finite (insert 0 (set (map rq_mag rc)))" by simp
      show "insert 0 (set (map rq_mag rc)) \<noteq> {}" by simp
      fix a assume "a \<in> insert 0 (set (map rq_mag rc))"
      then show "a \<le> 0"
        using neg unfolding rec by (auto split: option.splits)
    qed
    with nonneg show ?thesis by simp
  qed
  show ?thesis
    using res rec mx nonneg zero by (intro exI [of _ ?q]) simp
qed

theorem check_earthquake_magnitude_witness:
  "(\<exists>q. check_earthquake
          (offline\<lparr>usgs := \<lambda>lat lon r. Inr [quake None, quake (Some (- 1)), quake (Some 5.2)]\<rparr>)
          (Finite 35) (Finite 139) 100 = Inr q
        \<and> map rq_mag (eq_recent q) = [0, - 1, 5.2]
        \<and> eq_magnitude_estimate q = 5.2 \<and> eq_possible q)
   \<and> (\<exists>q. check_earthquake
          (offline\<lparr>usgs := \<lambda>lat lon r. Inr [quake None, quake (Some (- 1))]\<rparr>)
          (Finite 35) (Finite 139) 100 = Inr q
        \<and> map rq_mag (eq_recent q) = [0, - 1]
        \<and> eq_magnitude_estimate q = 0 \<and> \<not> eq_possible q)"
  using check_earthquake_magnitude
    [of "offline\<lparr>usgs := \<lambda>lat lon r. Inr [quake None, quake (Some (- 1)), quake (Some 5.2)]\<rparr>"
        "Finite 35" "Finite 139" 100 "[quake None, quake (Some (- 1)), quake (Some 5.2)]"]
    check_earthquake_magnitude
    [of "offline\<lparr>usgs := \<lambda>lat lon r. Inr [quake None, quake (Some (- 1))]\<rparr>"
        "Finite 35" "Finite 139" 100 "[quake None, quake (Some (- 1))]"]
  by (auto simp: quake_def)

subsection \<open>The decision of check\_tsunami\<close>

lemma haversine_km_equator:
  assumes "x \<le> y" and "y - x \<le> 180"
  shows "haversine_km 0 x 0 y = Inr (6371 * ((y - x) * pi / 180))"
proof -
  define t where "t = (y - x) * pi / 360"
  have t0: "0 \<le> t" using assms by (simp add: t_def)
  have "(y - x) * pi \<le> 180 * pi" using assms by simp
  then have t1: "t \<le> pi / 2" by (simp add: t_def)
  have half: "(radians y - radians x) / 2 = t"
    by (simp add: radians_def t_def field_simps)
  have s0: "0 \<le> sin t" using t0 t1 by (intro sin_ge_zero) (use pi_ge_two in linarith)+
  have a1: "(sin t)\<^sup>2 \<le> 1" by (simp add: abs_sin_le_one abs_square_le_1)
  have as: "arcsin (sin t) = t" using t0 t1 by (intro arcsin_sin) linarith+
  have "haversine_km 0 x 0 y = Inr (6371 * (2 * arcsin (sqrt ((sin t)\<^sup>2))))"
    using a1 unfolding haversine_km_def Let_def half by (simp add: radians_def)
  also have "\<dots> = Inr (6371 * (2 * t))"
    using s0 as by simp
  finally show ?thesis by (simp add: t_def)
qed

lemma py_less_eq_Finite: "py_less_eq (Finite a) (Finite b) \<longleftrightarrow> a \<le> b"
  by (auto simp: py_less_eq_def)

text \<open>
  C1, as the code has it. Whenever the earthquake feed of the tsunami check answers, the
  check returns a result: \<open>possible\<close> holds exactly when the maximum magnitude reaches the
  threshold; the severity is Low below the threshold, High when the magnitude is at least
  7.0 and the coastline distance is unknown or at most 100 km, and Moderate otherwise, so a
  measured coastline distance above 100 km caps the severity at Moderate.
\<close>

theorem check_tsunami_decision:
  assumes "check_earthquake w lat lon quake_radius_km = Inr q"
  shows "\<exists>t. check_tsunami w lat lon quake_radius_km quake_mag_threshold = Inr t
           \<and> ts_max_quake_magnitude t = eq_magnitude_estimate q
           \<and> ts_min_coast_distance_km t = min_coast_dist w lat lon
           \<and> (ts_possible t \<longleftrightarrow> eq_magnitude_estimate q \<ge> quake_mag_threshold)
           \<and> ts_severity t =
                (if eq_magnitude_estimate q < quake_mag_threshold then Low
                 else if eq_magnitude_estimate q \<ge> 7
                         \<and> (case min_coast_dist w lat lon of
                               None \<Rightarrow> True
                             | Some d \<Rightarrow> py_less_eq d (Finite 100))
                 then High
                 else Moderate)"
  using assms by (auto simp: check_tsunami_def Let_def split: option.splits)

theorem check_tsunami_decision_witness:
  "(\<exists>t. check_tsunami (offline\<lparr>usgs := \<lambda>lat lon r. Inr [quake (Some 7.2)]\<rparr>)
           (Finite 0) (Finite 98) 300 6.5 = Inr t
        \<and> ts_max_quake_magnitude t = 7.2 \<and> ts_min_coast_distance_km t = None
        \<and> ts_possible t \<and> ts_severity t = High)
   \<and> (\<exists>t. check_tsunami (offline\<lparr>usgs := \<lambda>lat lon r. Inr [quake (Some 6.4)]\<rparr>)
           (Finite 0) (Finite 98) 300 6.5 = Inr t
        \<and> ts_max_quake_magnitude t = 6.4 \<and> \<not> ts_possible t \<and> ts_severity t = Low)"
proof -
  have h1: "check_earthquake (offline\<lparr>usgs := \<lambda>lat lon r. Inr [quake (Some 7.2)]\<rparr>)
              (Finite 0) (Finite 98) 300
            = Inr \<lparr>eq_possible = True, eq_magnitude_estimate = 7.2, eq_count = 1,
                   eq_recent = [\<lparr>rq_mag = 7.2, rq_place = Some ''somewhere'', rq_time = Some 0\<rparr>],
                   eq_raw = [quake (Some 7.2)]\<rparr>"
    by (simp add: check_earthquake_def quake_def py_or_def Let_def)
  have h2: "check_earthquake (offline\<lparr>usgs := \<lambda>lat lon r. Inr [quake (Some 6.4)]\<rparr>)
              (Finite 0) (Finite 98) 300
            = Inr \<lparr>eq_possible = True, eq_magnitude_estimate = 6.4, eq_count = 1,
                   eq_recent = [\<lparr>rq_mag = 6.4, rq_place = Some ''somewhere'', rq_time = Some 0\<rparr>],
                   eq_raw = [quake (Some 6.4)]\<rparr>"
    by (simp add: check_earthquake_def quake_def py_or_def Let_def)
  have c: "min_coast_dist (offline\<lparr>usgs := u\<rparr>) (Finite 0) (Finite 98) = None" for u
    by (simp add: min_coast_dist_def offline_def)
  from check_tsunami_decision [OF h1, of "6.5"] check_tsunami_decision [OF h2, of "6.5"]
  show ?thesis by (auto simp: c)
qed

text \<open>
  The claim as stated fails: with a maximum magnitude of 7.2 and the only coastline centre
  two degrees of longitude away on the equator (about 222 km), the severity is Moderate,
  not High.
\<close>

theorem check_tsunami_far_coast_counterexample:
  "map_sum id (\<lambda>t. (ts_max_quake_magnitude t, ts_possible t, ts_severity t))
     (check_tsunami (offline\<lparr>usgs := \<lambda>lat lon r. Inr [quake (Some 7.2)],
                            coastline := \<lambda>lat lon. Inr [(0, 100)]\<rparr>)
        (Finite 0) (Finite 98) 300 6.5)
   = Inr (7.2, True, Moderate)"
proof -
  have "100 < 6371 * (2 * pi / 180)"
    using pi_ge_two by simp
  then show ?thesis
    by (simp add: check_tsunami_def check_earthquake_def quake_def py_or_def Let_def
          min_coast_dist_def haversine_km_equator py_min_def py_less_eq_Finite)
qed

subsection \<open>check\_wildfire without the current weather\<close>

text \<open>
  C4, what the code does where the claim expects an error. When the archive request of
  the wildfire check succeeds and its current-weather request fails, the check returns no
  error: it takes the wind to be 0 and the temperature to be absent, and classifies the
  severity as Low.
\<close>

theorem check_wildfire_without_weather:
  assumes "era5 w lat lon = Inr d"
    and "weather_for_wildfire w lat lon = Inl e"
  shows "\<exists>r. check_wildfire w lat lon = Inr r
           \<and> wf_wind_kph_now r = 0 \<and> wf_temp_now_c r = None \<and> wf_severity r = Low"
  using assms by (simp add: check_wildfire_def get_weather_def Let_def py_or_def)

theorem check_wildfire_without_weather_witness:
  "\<exists>r. check_wildfire
          (offline\<lparr>era5 := \<lambda>lat lon. Inr \<lparr>era_precipitation_sum = [Some 0, Some 1, None],
                                           era_temperature_2m_max = [Some 36, Some 38, Some 41]\<rparr>\<rparr>)
          (Finite 34) (Finite (- 118)) = Inr r
       \<and> wf_precip_last7_mm r = 1 \<and> wf_max_temp_last7_c r = Some 41
       \<and> wf_wind_kph_now r = 0 \<and> wf_temp_now_c r = None \<and> wf_severity r = Low"
  using check_wildfire_without_weather
     [of "offline\<lparr>era5 := \<lambda>lat lon. Inr \<lparr>era_precipitation_sum = [Some 0, Some 1, None],
                                           era_temperature_2m_max = [Some 36, Some 38, Some 41]\<rparr>\<rparr>"
         "Finite 34" "Finite (- 118)" _ "Raised ''timeout''"]
  by (auto simp: offline_def check_wildfire_def get_weather_def Let_def py_or_def py_max_def)

subsection \<open>The severity of check\_flood\<close>

text \<open>
  C5. Whenever the forecast request succeeds and the first 24 hourly values hold no null,
  the flood check returns a result. Its evidence is what the builtin \<^verbatim>\<open>sum\<close> makes of the
  first 24 hourly values (the 24-hour forecast sum), of the last 24 (the trailing 24 hours;
  0 when they hold a null) and of the archive's daily values with nulls read as 0 (the
  trailing 7 days; absent when the archive request fails), the two hourly sums being 0 for
  an empty series. Its severity is High if the first or the second sum is at least 50,
  otherwise Moderate if one of them is at least 20 or the archive sum is at least 100,
  otherwise Low; and \<open>possible\<close> holds exactly when the severity is not Low.
\<close>

theorem check_flood_severity:
  assumes "rain_forecast w lat lon = Inr hours"
    and "numbers (take 24 hours) = Some first24"
  shows "\<exists>r. check_flood w lat lon = Inr r
           \<and> fl_forecast_24h_mm r = (if hours = [] then 0 else float_sum w first24)
           \<and> fl_recent_24h_mm_approx r =
                (if hours = [] then 0
                 else (case numbers (drop (length hours - 24) hours) of
                         None \<Rightarrow> 0
                       | Some last24 \<Rightarrow> float_sum w last24))
           \<and> fl_precip_last7_mm r =
                (case rain_archive w lat lon of
                   Inl e \<Rightarrow> None
                 | Inr days \<Rightarrow>
                     Some (float_sum w (map (\<lambda>v. case v of None \<Rightarrow> 0 | Some x \<Rightarrow> x) days)))
           \<and> fl_severity r =
                (if fl_forecast_24h_mm r \<ge> 50 \<or> fl_recent_24h_mm_approx r \<ge> 50 then High
                 else if fl_forecast_24h_mm r \<ge> 20 \<or> fl_recent_24h_mm_approx r \<ge> 20
                         \<or> (\<exists>s. fl_precip_last7_mm r = Some s \<and> s \<ge> 100) then Moderate
                 else Low)
           \<and> (fl_possible r \<longleftrightarrow> fl_severity r \<noteq> Low)"
proof -
  have or0: "(\<lambda>v. py_or v 0) = (\<lambda>v. case v of None \<Rightarrow> 0 | Some x \<Rightarrow> x)"
    by (auto simp: fun_eq_iff py_or_def split: option.splits)
  show ?thesis
    using assms
    by (cases "rain_archive w lat lon")
       (auto simp: check_flood_def py_sum_def Let_def or0 split: option.splits)
qed

theorem check_flood_severity_witness:
  "(\<exists>r. check_flood (offline\<lparr>rain_forecast := \<lambda>lat lon. Inr [Some 40, Some 20, Some 0]\<rparr>)
            (Finite 13) (Finite 80) = Inr r
        \<and> fl_forecast_24h_mm r = 60 \<and> fl_precip_last7_mm r = None
        \<and> fl_severity r = High \<and> fl_possible r)
   \<and> (\<exists>r. check_flood (offline\<lparr>rain_forecast := \<lambda>lat lon. Inr [Some 3, Some 2],
                              rain_archive := \<lambda>lat lon. Inr [Some 60, None, Some 45]\<rparr>)
            (Finite 13) (Finite 80) = Inr r
        \<and> fl_forecast_24h_mm r = 5 \<and> fl_recent_24h_mm_approx r = 5 \<and> fl_precip_last7_mm r = Some 105
        \<and> fl_severity r = Moderate \<and> fl_possible r)
   \<and> (\<exists>r. check_flood (offline\<lparr>rain_forecast := \<lambda>lat lon. Inr [Some 3, Some 2],
                              rain_archive := \<lambda>lat lon. Inr [Some 10]\<rparr>)
            (Finite 13) (Finite 80) = Inr r
        \<and> fl_severity r = Low \<and> \<not> fl_possible r)"
  using check_flood_severity
     [of "offline\<lparr>rain_forecast := \<lambda>lat lon. Inr [Some 40, Some 20, Some 0]\<rparr>"
         "Finite 13" "Finite 80" "[Some 40, Some 20, Some 0]" "[40, 20, 0]"]
    check_flood_severity
     [of "offline\<lparr>rain_forecast := \<lambda>lat lon. Inr [Some 3, Some 2],
                  rain_archive := \<lambda>lat lon. Inr [Some 60, None, Some 45]\<rparr>"
         "Finite 13" "Finite 80" "[Some 3, Some 2]" "[3, 2]"]
    check_flood_severity
     [of "offline\<lparr>rain_forecast := \<lambda>lat lon. Inr [Some 3, Some 2],
                  rain_archive := \<lambda>lat lon. Inr [Some 10]\<rparr>"
         "Finite 13" "Finite 80" "[Some 3, Some 2]" "[3, 2]"]
  by (auto simp: offline_def)

subsection \<open>Symmetry of haversine\_km\<close>

text \<open>
  C9. Over the reals, the haversine distance from a to b is the distance from b to a
  (both calls return the same number, or both raise), and the distance from a point to
  itself is 0.
\<close>

theorem haversine_km_symmetric:
  "haversine_km lat1 lon1 lat2 lon2 = haversine_km lat2 lon2 lat1 lon1
   \<and> haversine_km lat1 lon1 lat1 lon1 = Inr 0"
proof
  have flip: "(sin ((x - y) / 2))\<^sup>2 = (sin ((y - x) / 2))\<^sup>2" for x y :: real
  proof -
    have "(x - y) / 2 = - ((y - x) / 2)" by (simp add: field_simps)
    then have "sin ((x - y) / 2) = - sin ((y - x) / 2)"
      by (metis sin_minus)
    then show ?thesis by simp
  qed
  show "haversine_km lat1 lon1 lat2 lon2 = haversine_km lat2 lon2 lat1 lon1"
    unfolding haversine_km_def Let_def
    by (simp add: flip [of "radians lat2" "radians lat1"] flip [of "radians lon2" "radians lon1"]
          mult.commute)
  show "haversine_km lat1 lon1 lat1 lon1 = Inr 0"
    by (simp add: haversine_km_def Let_def)
qed

theorem haversine_km_symmetric_witness:
  "haversine_km 13 80 35 139 = haversine_km 35 139 13 80 \<and> haversine_km 13 80 13 80 = Inr 0"
  using haversine_km_symmetric [of 13 80 35 139] by simp

subsection \<open>The entries of the returned dictionary\<close>

text \<open>
  C2, as the code has it. Once a coordinate has been resolved, the assessment returns a
  dictionary and never an error, whatever the hazard requests answer, failures included;
  the dictionary has exactly one entry for each of Earthquake, Snowfall, Hurricane, Tsunami
  and Wildfire, which is whatever that kind's check returned, and no entry for Flood.
\<close>

theorem assessment_entries:
  assumes "resolve_location geolocator float_of s = Inr (lat, lon)"
  shows "\<exists>d. collect_signals_for_location geolocator float_of w s = Inr d
     \<and> map fst d = [''lat'', ''lon'', ''earthquake'', ''weather'', ''shelters'', ''hospitals'',
                     ''snowfall'', ''hurricane'', ''tsunami'', ''wildfire'', ''final_severities'',
                     ''action_plan'']
     \<and> (\<forall>k \<in> {Earthquake, Snowfall, Hurricane, Tsunami, Wildfire}.
           length (filter (\<lambda>kv. fst kv = hazard_key k) d) = 1)
     \<and> filter (\<lambda>kv. fst kv = hazard_key Flood) d = []
     \<and> map_of d (hazard_key Earthquake) = Some (Earthquake_entry (check_earthquake w lat lon 100))
     \<and> map_of d (hazard_key Snowfall) = Some (Snowfall_entry (check_snowfall w lat lon))
     \<and> map_of d (hazard_key Hurricane) = Some (Hurricane_entry (check_hurricane w lat lon))
     \<and> map_of d (hazard_key Tsunami) = Some (Tsunami_entry (check_tsunami w lat lon 300 6.5))
     \<and> map_of d (hazard_key Wildfire) = Some (Wildfire_entry (check_wildfire w lat lon))"
  using assms by (simp add: collect_signals_for_location_def signals_at_def Let_def)

theorem assessment_entries_witness:
  "\<exists>d. collect_signals_for_location geolocator_down float_sample offline ''1,2'' = Inr d
     \<and> map fst d = [''lat'', ''lon'', ''earthquake'', ''weather'', ''shelters'', ''hospitals'',
                     ''snowfall'', ''hurricane'', ''tsunami'', ''wildfire'', ''final_severities'',
                     ''action_plan'']
     \<and> map_of d ''earthquake'' = Some (Earthquake_entry (Inl (Raised ''timeout'')))
     \<and> map_of d ''snowfall'' = Some (Snowfall_entry (Inl (Raised ''timeout'')))
     \<and> map_of d ''hurricane'' = Some (Hurricane_entry (Inl (Raised ''timeout'')))
     \<and> map_of d ''tsunami'' = Some (Tsunami_entry (Inl (Quake_feed_error (Raised ''timeout''))))
     \<and> map_of d ''wildfire'' = Some (Wildfire_entry (Inl (Raised ''timeout'')))"
proof -
  have r: "resolve_location geolocator_down float_sample ''1,2'' = Inr (Finite 1, Finite 2)"
    by (simp add: resolve_location_def literal_coordinate_def float_sample_def strip_def
          is_space_def)
  from assessment_entries [OF r, of offline] show ?thesis
    by (auto simp: offline_def check_earthquake_def check_snowfall_def check_hurricane_def
          check_tsunami_def check_wildfire_def)
qed

text \<open>
  The claim as stated fails for Flood: the dictionary returned for the input "1,2" has no
  entry under the key of Flood.
\<close>

theorem assessment_flood_counterexample:
  "map_sum id (\<lambda>d. length (filter (\<lambda>kv. fst kv = hazard_key Flood) d))
     (collect_signals_for_location geolocator_down float_sample offline ''1,2'') = Inr 0"
  by (simp add: collect_signals_for_location_def resolve_location_def literal_coordinate_def
        float_sample_def strip_def is_space_def signals_at_def Let_def)

subsection \<open>The final severities\<close>

text \<open>
  C3, as the code has it. The dictionary of final severities has one entry for each of the
  five kinds the aggregator assesses and none for Flood. The entry of Earthquake is derived
  from the magnitude estimate of the earthquake check by the table (below 4.5 Low, from 4.5
  and below 6.5 Moderate, from 6.5 High), and it is Low when the check returned an error.
  The entry of every other kind is the severity its check returned, and Low when the check
  returned an error, which is the only way a result carries no severity. Moreover a kind
  all of whose requests answer without any data (no earthquake event; no snowfall series
  and no temperature; no wind value; no archive series and no wind speed) has the final
  severity Low.
\<close>

theorem final_severities_of_assessment:
  "\<exists>fs. map_of (signals_at w lat lon) ''final_severities'' = Some (Severities_entry fs)
      \<and> map fst fs = [''earthquake'', ''snowfall'', ''hurricane'', ''tsunami'', ''wildfire'']
      \<and> map_of fs (hazard_key Flood) = None
      \<and> map_of fs ''earthquake'' =
           Some (case check_earthquake w lat lon 100 of
                   Inl e \<Rightarrow> Low
                 | Inr q \<Rightarrow>
                     (if eq_magnitude_estimate q < 4.5 then Low
                      else if eq_magnitude_estimate q < 6.5 then Moderate
                      else High))
      \<and> map_of fs ''snowfall'' =
           Some (case check_snowfall w lat lon of Inl e \<Rightarrow> Low | Inr r \<Rightarrow> sn_severity r)
      \<and> map_of fs ''hurricane'' =
           Some (case check_hurricane w lat lon of Inl e \<Rightarrow> Low | Inr r \<Rightarrow> hu_severity r)
      \<and> map_of fs ''tsunami'' =
           Some (case check_tsunami w lat lon 300 6.5 of Inl e \<Rightarrow> Low | Inr r \<Rightarrow> ts_severity r)
      \<and> map_of fs ''wildfire'' =
           Some (case check_wildfire w lat lon of Inl e \<Rightarrow> Low | Inr r \<Rightarrow> wf_severity r)
      \<and> (usgs w lat lon 100 = Inr [] \<longrightarrow> map_of fs ''earthquake'' = Some Low)
      \<and> ((\<exists>d. snow_forecast w lat lon = Inr d
               \<and> (sa_snowfall_sum d = None \<or> sa_snowfall_sum d = Some [])
               \<and> cw_temperature (sa_current d) = None)
           \<longrightarrow> map_of fs ''snowfall'' = Some Low)
      \<and> (wind_forecast w lat lon = Inr [] \<longrightarrow> map_of fs ''hurricane'' = Some Low)
      \<and> (usgs w lat lon 300 = Inr [] \<longrightarrow> map_of fs ''tsunami'' = Some Low)
      \<and> (era5 w lat lon = Inr \<lparr>era_precipitation_sum = [], era_temperature_2m_max = []\<rparr>
             \<and> (\<forall>c. weather_for_wildfire w lat lon = Inr c \<longrightarrow> cw_windspeed c = None)
           \<longrightarrow> map_of fs ''wildfire'' = Some Low)"
proof -
  define fs where "fs = final_severities (check_earthquake w lat lon 100) (check_snowfall w lat lon)
    (check_hurricane w lat lon) (check_tsunami w lat lon 300 6.5) (check_wildfire w lat lon)"
  have entry: "map_of (signals_at w lat lon) ''final_severities'' = Some (Severities_entry fs)"
    by (simp add: signals_at_def Let_def fs_def)
  have keys: "map fst fs = [''earthquake'', ''snowfall'', ''hurricane'', ''tsunami'', ''wildfire'']"
    by (simp add: fs_def final_severities_def Let_def)
  have fl: "map_of fs (hazard_key Flood) = None"
    by (simp add: fs_def final_severities_def Let_def)
  have eq: "map_of fs ''earthquake'' =
           Some (case check_earthquake w lat lon 100 of
                   Inl e \<Rightarrow> Low
                 | Inr q \<Rightarrow>
                     (if eq_magnitude_estimate q < 4.5 then Low
                      else if eq_magnitude_estimate q < 6.5 then Moderate
                      else High))"
    by (simp add: fs_def final_severities_def Let_def quake_severity_label_def split: sum.splits)
  have sn: "map_of fs ''snowfall'' =
           Some (case check_snowfall w lat lon of Inl e \<Rightarrow> Low | Inr r \<Rightarrow> sn_severity r)"
    by (simp add: fs_def final_severities_def Let_def or_low_def split: sum.splits)
  have hu: "map_of fs ''hurricane'' =
           Some (case check_hurricane w lat lon of Inl e \<Rightarrow> Low | Inr r \<Rightarrow> hu_severity r)"
    by (simp add: fs_def final_severities_def Let_def or_low_def split: sum.splits)
  have ts: "map_of fs ''tsunami'' =
           Some (case check_tsunami w lat lon 300 6.5 of Inl e \<Rightarrow> Low | Inr r \<Rightarrow> ts_severity r)"
    by (simp add: fs_def final_severities_def Let_def or_low_def split: sum.splits)
  have wf: "map_of fs ''wildfire'' =
           Some (case check_wildfire w lat lon of Inl e \<Rightarrow> Low | Inr r \<Rightarrow> wf_severity r)"
    by (simp add: fs_def final_severities_def Let_def or_low_def split: sum.splits)
  have eq0: "usgs w lat lon 100 = Inr [] \<longrightarrow> map_of fs ''earthquake'' = Some Low"
    unfolding eq by (simp add: check_earthquake_def)
  have sn0: "(\<exists>d. snow_forecast w lat lon = Inr d
               \<and> (sa_snowfall_sum d = None \<or> sa_snowfall_sum d = Some [])
               \<and> cw_temperature (sa_current d) = None)
           \<longrightarrow> map_of fs ''snowfall'' = Some Low"
    unfolding sn by (auto simp: check_snowfall_def)
  have hu0: "wind_forecast w lat lon = Inr [] \<longrightarrow> map_of fs ''hurricane'' = Some Low"
    unfolding hu by (simp add: check_hurricane_def)
  have ts0: "usgs w lat lon 300 = Inr [] \<longrightarrow> map_of fs ''tsunami'' = Some Low"
    unfolding ts by (simp add: check_tsunami_def check_earthquake_def Let_def)
  have wf0: "era5 w lat lon = Inr \<lparr>era_precipitation_sum = [], era_temperature_2m_max = []\<rparr>
             \<and> (\<forall>c. weather_for_wildfire w lat lon = Inr c \<longrightarrow> cw_windspeed c = None)
           \<longrightarrow> map_of fs ''wildfire'' = Some Low"
    unfolding wf
    by (cases "weather_for_wildfire w lat lon")
       (simp_all add: check_wildfire_def get_weather_def Let_def py_or_def)
  show ?thesis
    by (rule exI [of _ fs], intro conjI)
       (rule entry keys fl eq sn hu ts wf eq0 sn0 hu0 ts0 wf0)+
qed

theorem final_severities_of_assessment_witness:
  "map_of (signals_at (offline\<lparr>usgs := \<lambda>lat lon r. Inr [quake (Some 4.4), quake (Some 6.5)]\<rparr>)
            (Finite 0) (Finite 98)) ''final_severities''
     = Some (Severities_entry [(''earthquake'', High), (''snowfall'', Low), (''hurricane'', Low),
                               (''tsunami'', Moderate), (''wildfire'', Low)])
   \<and> map_of (signals_at (offline\<lparr>usgs := \<lambda>lat lon r. Inr [quake (Some 6.4)]\<rparr>)
            (Finite 0) (Finite 98)) ''final_severities''
     = Some (Severities_entry [(''earthquake'', Moderate), (''snowfall'', Low), (''hurricane'', Low),
                               (''tsunami'', Low), (''wildfire'', Low)])"
  using final_severities_of_assessment
      [of "offline\<lparr>usgs := \<lambda>lat lon r. Inr [quake (Some 4.4), quake (Some 6.5)]\<rparr>"
          "Finite 0" "Finite 98"]
    final_severities_of_assessment
      [of "offline\<lparr>usgs := \<lambda>lat lon r. Inr [quake (Some 6.4)]\<rparr>" "Finite 0" "Finite 98"]
  by (simp add: signals_at_def Let_def final_severities_def check_earthquake_def quake_def py_or_def
        check_snowfall_def check_hurricane_def check_tsunami_def check_wildfire_def offline_def
        min_coast_dist_def quake_severity_label_def or_low_def)

text \<open>
  The claim as stated fails in three ways. Flood has no final severity at all. With a
  maximum magnitude of 7.2 and the coastline request of the tsunami check failing, the final
  severity of Tsunami is High. With an archive answer that holds no precipitation value, a
  maximum temperature of 40 and a wind of 35 km/h, the final severity of Wildfire is High.
\<close>

theorem final_severities_missing_data_counterexample:
  "coastline (offline\<lparr>usgs := \<lambda>lat lon r. Inr [quake (Some 7.2)]\<rparr>) (Finite 0) (Finite 98)
     = Inl (Raised ''timeout'')
   \<and> map_of (signals_at (offline\<lparr>usgs := \<lambda>lat lon r. Inr [quake (Some 7.2)]\<rparr>)
            (Finite 0) (Finite 98)) ''final_severities''
     = Some (Severities_entry [(''earthquake'', High), (''snowfall'', Low), (''hurricane'', Low),
                               (''tsunami'', High), (''wildfire'', Low)])
   \<and> map_of [(''earthquake'', High), (''snowfall'', Low), (''hurricane'', Low),
              (''tsunami'', High), (''wildfire'', Low)] (hazard_key Flood) = None
   \<and> map_of (signals_at
              (offline\<lparr>era5 := \<lambda>lat lon. Inr \<lparr>era_precipitation_sum = [],
                                                 era_temperature_2m_max = [Some 40]\<rparr>,
                        weather_for_wildfire :=
                          \<lambda>lat lon. Inr \<lparr>cw_temperature = Some 30, cw_windspeed = Some 35\<rparr>\<rparr>)
            (Finite 34) (Finite (- 118))) ''final_severities''
     = Some (Severities_entry [(''earthquake'', Low), (''snowfall'', Low), (''hurricane'', Low),
                               (''tsunami'', Low), (''wildfire'', High)])"
  by (simp add: signals_at_def Let_def final_severities_def check_earthquake_def quake_def py_or_def
        check_snowfall_def check_hurricane_def check_tsunami_def check_wildfire_def offline_def
        min_coast_dist_def quake_severity_label_def or_low_def get_weather_def py_max_def)

subsection \<open>The blocks of the action plan\<close>

lemma block_low: "plan_for_disaster fs H S d Low = []"
  by (simp add: plan_for_disaster_def)

lemma block_headers:
  "filter is_header (plan_for_disaster fs H S d sev) = (if sev = Low then [] else [Header d sev])"
  by (simp add: plan_for_disaster_def add_common_resources_def Let_def split: sum.splits)

lemma block_refs:
  "hospital_refs (plan_for_disaster fs H S d sev) \<le> 3
   \<and> shelter_refs (plan_for_disaster fs H S d sev) \<le> 3"
  by (simp add: plan_for_disaster_def add_common_resources_def Let_def split: sum.splits)

lemma plan_headers:
  "filter is_header (concat (map (\<lambda>(d, sev). plan_for_disaster fs0 H S d sev) fs))
     = map (\<lambda>(d, sev). Header d sev) (filter (\<lambda>(d, sev). sev \<noteq> Low) fs)"
  by (induction fs) (auto simp: block_headers)

lemma plan_all_low:
  "\<forall>(d, sev) \<in> set fs. sev = Low \<Longrightarrow>
     concat (map (\<lambda>(d, sev). plan_for_disaster fs0 H S d sev) fs) = []"
  by (induction fs) (auto simp: block_low)

text \<open>
  C6. The action plan of an assessment is the concatenation, in the order of the final
  severities, of one block per hazard. The block of a hazard whose final severity is Low is
  empty, so the header lines of the plan are exactly those of the hazards that are not Low
  and the plan is empty when every hazard is Low; and no block refers to more than 3
  hospitals or to more than 3 shelters.
\<close>

theorem action_plan_blocks:
  "\<exists>fs plan.
      map_of (signals_at w lat lon) ''final_severities'' = Some (Severities_entry fs)
    \<and> map_of (signals_at w lat lon) ''action_plan'' = Some (Plan_entry plan)
    \<and> plan = concat (map (\<lambda>(d, sev).
                 plan_for_disaster fs (find_hospitals w lat lon) (find_schools w lat lon) d sev) fs)
    \<and> filter is_header plan = map (\<lambda>(d, sev). Header d sev) (filter (\<lambda>(d, sev). sev \<noteq> Low) fs)
    \<and> (\<forall>(d, sev) \<in> set fs.
          (sev = Low \<longrightarrow>
             plan_for_disaster fs (find_hospitals w lat lon) (find_schools w lat lon) d sev = [])
        \<and> hospital_refs
              (plan_for_disaster fs (find_hospitals w lat lon) (find_schools w lat lon) d sev) \<le> 3
        \<and> shelter_refs
              (plan_for_disaster fs (find_hospitals w lat lon) (find_schools w lat lon) d sev) \<le> 3)
    \<and> ((\<forall>(d, sev) \<in> set fs. sev = Low) \<longrightarrow> plan = [])"
proof -
  define fs where "fs = final_severities (check_earthquake w lat lon 100) (check_snowfall w lat lon)
    (check_hurricane w lat lon) (check_tsunami w lat lon 300 6.5) (check_wildfire w lat lon)"
  define plan where "plan = concat (map (\<lambda>(d, sev).
    plan_for_disaster fs (find_hospitals w lat lon) (find_schools w lat lon) d sev) fs)"
  have 1: "map_of (signals_at w lat lon) ''final_severities'' = Some (Severities_entry fs)"
    by (simp add: signals_at_def Let_def fs_def)
  have 2: "map_of (signals_at w lat lon) ''action_plan'' = Some (Plan_entry plan)"
    by (simp add: signals_at_def Let_def fs_def plan_def action_plan_def)
  have 3: "filter is_header plan = map (\<lambda>(d, sev). Header d sev) (filter (\<lambda>(d, sev). sev \<noteq> Low) fs)"
    unfolding plan_def by (rule plan_headers)
  have 4: "\<forall>(d, sev) \<in> set fs.
          (sev = Low \<longrightarrow>
             plan_for_disaster fs (find_hospitals w lat lon) (find_schools w lat lon) d sev = [])
        \<and> hospital_refs
              (plan_for_disaster fs (find_hospitals w lat lon) (find_schools w lat lon) d sev) \<le> 3
        \<and> shelter_refs
              (plan_for_disaster fs (find_hospitals w lat lon) (find_schools w lat lon) d sev) \<le> 3"
    using block_refs block_low by fastforce
  have 5: "(\<forall>(d, sev) \<in> set fs. sev = Low) \<longrightarrow> plan = []"
    unfolding plan_def using plan_all_low by blast
  from 1 2 3 4 5 plan_def show ?thesis by blast
qed

theorem action_plan_blocks_witness:
  "\<exists>fs plan.
      map_of (signals_at (offline\<lparr>usgs := \<lambda>lat lon r. Inr [quake (Some 7.2)],
                find_hospitals := \<lambda>lat lon. Inr [clinic 1, clinic 2, clinic 3, clinic 4]\<rparr>)
              (Finite 0) (Finite 98)) ''final_severities'' = Some (Severities_entry fs)
    \<and> map_of (signals_at (offline\<lparr>usgs := \<lambda>lat lon r. Inr [quake (Some 7.2)],
                find_hospitals := \<lambda>lat lon. Inr [clinic 1, clinic 2, clinic 3, clinic 4]\<rparr>)
              (Finite 0) (Finite 98)) ''action_plan'' = Some (Plan_entry plan)
    \<and> fs = [(''earthquake'', High), (''snowfall'', Low), (''hurricane'', Low), (''tsunami'', High),
             (''wildfire'', Low)]
    \<and> filter is_header plan = [Header ''earthquake'' High, Header ''tsunami'' High]
    \<and> hospital_refs plan = 6 \<and> shelter_refs plan = 0"
  using action_plan_blocks [of "offline\<lparr>usgs := \<lambda>lat lon r. Inr [quake (Some 7.2)],
                find_hospitals := \<lambda>lat lon. Inr [clinic 1, clinic 2, clinic 3, clinic 4]\<rparr>"
              "Finite 0" "Finite 98"]
  by (simp add: signals_at_def Let_def final_severities_def check_earthquake_def quake_def py_or_def
        check_snowfall_def check_hurricane_def check_tsunami_def check_wildfire_def offline_def
        min_coast_dist_def quake_severity_label_def or_low_def action_plan_def plan_for_disaster_def
        add_common_resources_def)

subsection \<open>The tsunami warning of the earthquake block\<close>

lemma warning_only_earthquake:
  "d \<noteq> ''earthquake'' \<Longrightarrow> Tsunami_warning \<notin> set (plan_for_disaster fs H S d sev)"
  by (simp add: plan_for_disaster_def add_common_resources_def Let_def split: sum.splits)

lemma warning_in_earthquake:
  "sev \<noteq> Low \<Longrightarrow>
     Tsunami_warning \<in> set (plan_for_disaster fs H S ''earthquake'' sev)
       \<longleftrightarrow> (map_of fs ''tsunami'' = Some Moderate \<or> map_of fs ''tsunami'' = Some High)"
  by (auto simp: plan_for_disaster_def add_common_resources_def Let_def split: sum.splits)

text \<open>
  C7. In an assessment whose final severity of Earthquake is not Low, the plan starts with
  the earthquake block, the tsunami warning stands nowhere after that block, and it stands
  in that block exactly when the final severity of Tsunami is Moderate or High.
\<close>

theorem earthquake_block_tsunami_warning:
  assumes "map_of (signals_at w lat lon) ''final_severities'' = Some (Severities_entry fs)"
    and "map_of fs ''earthquake'' = Some sev"
    and "sev \<noteq> Low"
  shows "\<exists>rest.
      map_of (signals_at w lat lon) ''action_plan''
        = Some (Plan_entry
            (plan_for_disaster fs (find_hospitals w lat lon) (find_schools w lat lon) ''earthquake'' sev
             @ rest))
    \<and> Tsunami_warning \<notin> set rest
    \<and> (Tsunami_warning
          \<in> set (plan_for_disaster fs (find_hospitals w lat lon) (find_schools w lat lon) ''earthquake'' sev)
        \<longleftrightarrow> (map_of fs ''tsunami'' = Some Moderate \<or> map_of fs ''tsunami'' = Some High))"
proof -
  let ?H = "find_hospitals w lat lon" and ?S = "find_schools w lat lon"
  have fs: "fs = final_severities (check_earthquake w lat lon 100) (check_snowfall w lat lon)
    (check_hurricane w lat lon) (check_tsunami w lat lon 300 6.5) (check_wildfire w lat lon)"
    using assms(1) by (simp add: signals_at_def Let_def)
  then obtain s2 s3 s4 s5 where shape:
    "fs = [(''earthquake'', sev), (''snowfall'', s2), (''hurricane'', s3), (''tsunami'', s4), (''wildfire'', s5)]"
    using assms(2) by (simp add: final_severities_def Let_def)
  define rest where "rest = plan_for_disaster fs ?H ?S ''snowfall'' s2 @ plan_for_disaster fs ?H ?S ''hurricane'' s3
    @ plan_for_disaster fs ?H ?S ''tsunami'' s4 @ plan_for_disaster fs ?H ?S ''wildfire'' s5"
  have "action_plan fs ?H ?S = plan_for_disaster fs ?H ?S ''earthquake'' sev @ rest"
    unfolding action_plan_def rest_def by (subst (2) shape) simp
  then have 1: "map_of (signals_at w lat lon) ''action_plan''
        = Some (Plan_entry (plan_for_disaster fs ?H ?S ''earthquake'' sev @ rest))"
    by (simp add: signals_at_def Let_def fs)
  have 2: "Tsunami_warning \<notin> set rest"
    unfolding rest_def by (simp add: warning_only_earthquake)
  from 1 2 warning_in_earthquake [OF assms(3)] show ?thesis by blast
qed

theorem earthquake_block_tsunami_warning_witness:
  "(\<exists>rest.
      map_of (signals_at (offline\<lparr>usgs := \<lambda>lat lon r. Inr [quake (Some 7.2)]\<rparr>) (Finite 0) (Finite 98))
        ''action_plan''
        = Some (Plan_entry
            ([Header ''earthquake'' High,
              Directive ''- Drop, cover, and hold on. Stay away from windows and heavy furniture.'',
              Directive ''- After shaking stops, move to open areas; avoid damaged structures.'',
              Tsunami_warning] @ rest))
    \<and> Tsunami_warning \<notin> set rest)
   \<and> (\<exists>rest.
      map_of (signals_at (offline\<lparr>usgs := \<lambda>lat lon r. Inr [quake (Some 5)]\<rparr>) (Finite 0) (Finite 98))
        ''action_plan''
        = Some (Plan_entry
            ([Header ''earthquake'' Moderate,
              Directive ''- Drop, cover, and hold on. Stay away from windows and heavy furniture.'',
              Directive ''- After shaking stops, move to open areas; avoid damaged structures.'']
             @ rest))
    \<and> Tsunami_warning \<notin> set rest)"
proof -
  let ?w1 = "offline\<lparr>usgs := \<lambda>lat lon r. Inr [quake (Some 7.2)]\<rparr>"
  let ?w2 = "offline\<lparr>usgs := \<lambda>lat lon r. Inr [quake (Some 5)]\<rparr>"
  let ?fs1 = "[(''earthquake'', High), (''snowfall'', Low), (''hurricane'', Low),
               (''tsunami'', High), (''wildfire'', Low)]"
  let ?fs2 = "[(''earthquake'', Moderate), (''snowfall'', Low), (''hurricane'', Low),
               (''tsunami'', Low), (''wildfire'', Low)]"
  have h1: "map_of (signals_at ?w1 (Finite 0) (Finite 98)) ''final_severities''
              = Some (Severities_entry ?fs1)"
    by (simp add: signals_at_def Let_def final_severities_def check_earthquake_def quake_def
          py_or_def check_snowfall_def check_hurricane_def check_tsunami_def check_wildfire_def
          offline_def min_coast_dist_def quake_severity_label_def or_low_def)
  have h2: "map_of (signals_at ?w2 (Finite 0) (Finite 98)) ''final_severities''
              = Some (Severities_entry ?fs2)"
    by (simp add: signals_at_def Let_def final_severities_def check_earthquake_def quake_def
          py_or_def check_snowfall_def check_hurricane_def check_tsunami_def check_wildfire_def
          offline_def min_coast_dist_def quake_severity_label_def or_low_def)
  have b1: "plan_for_disaster ?fs1 (find_hospitals ?w1 (Finite 0) (Finite 98))
              (find_schools ?w1 (Finite 0) (Finite 98)) ''earthquake'' High
            = [Header ''earthquake'' High,
               Directive ''- Drop, cover, and hold on. Stay away from windows and heavy furniture.'',
               Directive ''- After shaking stops, move to open areas; avoid damaged structures.'',
               Tsunami_warning]"
    by (simp add: plan_for_disaster_def add_common_resources_def offline_def)
  have b2: "plan_for_disaster ?fs2 (find_hospitals ?w2 (Finite 0) (Finite 98))
              (find_schools ?w2 (Finite 0) (Finite 98)) ''earthquake'' Moderate
            = [Header ''earthquake'' Moderate,
               Directive ''- Drop, cover, and hold on. Stay away from windows and heavy furniture.'',
               Directive ''- After shaking stops, move to open areas; avoid damaged structures.'']"
    by (simp add: plan_for_disaster_def add_common_resources_def offline_def)
  from earthquake_block_tsunami_warning [OF h1, of High]
  have w1: "\<exists>rest.
      map_of (signals_at ?w1 (Finite 0) (Finite 98)) ''action_plan''
        = Some (Plan_entry
            ([Header ''earthquake'' High,
              Directive ''- Drop, cover, and hold on. Stay away from windows and heavy furniture.'',
              Directive ''- After shaking stops, move to open areas; avoid damaged structures.'',
              Tsunami_warning] @ rest))
    \<and> Tsunami_warning \<notin> set rest"
    unfolding b1 by auto
  from earthquake_block_tsunami_warning [OF h2, of Moderate]
  have w2: "\<exists>rest.
      map_of (signals_at ?w2 (Finite 0) (Finite 98)) ''action_plan''
        = Some (Plan_entry
            ([Header ''earthquake'' Moderate,
              Directive ''- Drop, cover, and hold on. Stay away from windows and heavy furniture.'',
              Directive ''- After shaking stops, move to open areas; avoid damaged structures.'']
             @ rest))
    \<and> Tsunami_warning \<notin> set rest"
    unfolding b2 by auto
  from w1 w2 show ?thesis by (rule conjI)
qed

subsection \<open>Resolving the location\<close>

lemma split_on_not_Nil: "split_on c s \<noteq> []"
  by (induction s) (auto split: list.splits)

lemma split_on_absent: "c \<notin> set s \<Longrightarrow> split_on c s = [s]"
  by (induction s) auto

lemma split_on_present: "c \<in> set s \<Longrightarrow> \<exists>f0 f1 rest. split_on c s = f0 # f1 # rest"
proof (induction s)
  case Nil
  then show ?case by simp
next
  case (Cons x xs)
  show ?case
  proof (cases "x = c")
    case True
    obtain p ps where "split_on c xs = p # ps"
      using split_on_not_Nil [of c xs] by (cases "split_on c xs") auto
    with True show ?thesis by simp
  next
    case False
    with Cons.prems have "c \<in> set xs" by simp
    from Cons.IH [OF this] obtain f0 f1 rest where "split_on c xs = f0 # f1 # rest" by blast
    with False show ?thesis by simp
  qed
qed

lemma literal_coordinate_fields:
  "literal_coordinate float_of s =
     (case split_on CHR '','' s of
        f0 # f1 # rest \<Rightarrow>
          (case float_of (strip f0) of
             None \<Rightarrow> None
           | Some lat \<Rightarrow> (case float_of (strip f1) of None \<Rightarrow> None | Some lon \<Rightarrow> Some (lat, lon)))
      | _ \<Rightarrow> None)"
proof (cases "CHR '','' \<in> set s")
  case True
  from split_on_present [OF this] obtain f0 f1 rest where "split_on CHR '','' s = f0 # f1 # rest"
    by blast
  with True show ?thesis by (simp add: literal_coordinate_def)
next
  case False
  then show ?thesis by (simp add: literal_coordinate_def split_on_absent)
qed

text \<open>
  C8, as the code has it. When the first two comma-separated fields of the input, stripped
  of white space, are both accepted by \<^verbatim>\<open>float\<close>, the assessment runs at that pair of
  values whatever the geocoder would answer (the values may be infinite or not a number, and
  fields after the second are ignored). Every other input is resolved by the geocoder's
  answer alone; and when the resolution fails, the assessment returns that error whatever
  the hazard requests would answer.
\<close>

theorem resolve_location_cases:
  "(split_on CHR '','' s = f0 # f1 # rest \<and> float_of (strip f0) = Some lat
      \<and> float_of (strip f1) = Some lon
    \<longrightarrow> (\<forall>geolocator.
           resolve_location geolocator float_of s = Inr (lat, lon)
         \<and> collect_signals_for_location geolocator float_of w s = Inr (signals_at w lat lon)))
   \<and> ((\<nexists>f0 f1 rest lat lon. split_on CHR '','' s = f0 # f1 # rest
          \<and> float_of (strip f0) = Some lat \<and> float_of (strip f1) = Some lon)
    \<longrightarrow> resolve_location geolocator float_of s =
          (case geolocator s of
             Inl e \<Rightarrow> Inl (Geocode_failure e)
           | Inr None \<Rightarrow> Inl (Geocode_failure Could_not_geocode)
           | Inr (Some loc) \<Rightarrow> Inr loc))
   \<and> (\<forall>e. resolve_location geolocator float_of s = Inl e
        \<longrightarrow> (\<forall>w. collect_signals_for_location geolocator float_of w s = Inl e))"
proof (intro conjI impI allI)
  fix g
  assume h: "split_on CHR '','' s = f0 # f1 # rest \<and> float_of (strip f0) = Some lat
      \<and> float_of (strip f1) = Some lon"
  then show r: "resolve_location g float_of s = Inr (lat, lon)"
    by (simp add: resolve_location_def literal_coordinate_fields)
  then show "collect_signals_for_location g float_of w s = Inr (signals_at w lat lon)"
    by (simp add: collect_signals_for_location_def)
next
  assume h: "\<nexists>f0 f1 rest lat lon. split_on CHR '','' s = f0 # f1 # rest
          \<and> float_of (strip f0) = Some lat \<and> float_of (strip f1) = Some lon"
  have "literal_coordinate float_of s = None"
    using h unfolding literal_coordinate_fields
    by (auto split: list.splits option.splits)
  then show "resolve_location geolocator float_of s =
          (case geolocator s of
             Inl e \<Rightarrow> Inl (Geocode_failure e)
           | Inr None \<Rightarrow> Inl (Geocode_failure Could_not_geocode)
           | Inr (Some loc) \<Rightarrow> Inr loc)"
    by (simp add: resolve_location_def geocode_place_def split: sum.splits option.splits)
next
  fix e w'
  assume "resolve_location geolocator float_of s = Inl e"
  then show "collect_signals_for_location geolocator float_of w' s = Inl e"
    by (simp add: collect_signals_for_location_def)
qed

theorem resolve_location_cases_witness:
  "resolve_location geolocator_down float_sample '' 1 , 2'' = Inr (Finite 1, Finite 2)
   \<and> collect_signals_for_location geolocator_down float_sample offline '' 1 , 2''
       = Inr (signals_at offline (Finite 1) (Finite 2))
   \<and> resolve_location geolocator_down float_sample ''Chennai, India''
       = Inl (Geocode_failure (Raised ''timeout''))
   \<and> collect_signals_for_location geolocator_down float_sample offline ''Chennai, India''
       = Inl (Geocode_failure (Raised ''timeout''))
   \<and> resolve_location (\<lambda>place. Inr None) float_sample ''Atlantis''
       = Inl (Geocode_failure Could_not_geocode)
   \<and> resolve_location (\<lambda>place. Inr (Some (Finite 13, Finite 80))) float_sample ''Chennai, India''
       = Inr (Finite 13, Finite 80)"
proof -
  have a: "split_on CHR '','' '' 1 , 2'' = '' 1 '' # '' 2'' # []
           \<and> float_sample (strip '' 1 '') = Some (Finite 1)
           \<and> float_sample (strip '' 2'') = Some (Finite 2)"
    by (simp add: float_sample_def strip_def is_space_def)
  have b: "\<nexists>f0 f1 rest lat lon. split_on CHR '','' ''Chennai, India'' = f0 # f1 # rest
          \<and> float_sample (strip f0) = Some lat \<and> float_sample (strip f1) = Some lon"
    by (simp add: float_sample_def strip_def is_space_def)
  have c: "\<nexists>f0 f1 rest lat lon. split_on CHR '','' ''Atlantis'' = f0 # f1 # rest
          \<and> float_sample (strip f0) = Some lat \<and> float_sample (strip f1) = Some lon"
    by simp
  note t1 = resolve_location_cases
    [where s = "'' 1 , 2''" and ?f0.0 = "'' 1 ''" and ?f1.0 = "'' 2''" and rest = "[]"
       and float_of = float_sample and lat = "Finite 1" and lon = "Finite 2" and w = offline
       and geolocator = geolocator_down]
  note t2 = resolve_location_cases
    [where s = "''Chennai, India''" and float_of = float_sample and geolocator = geolocator_down]
  note t3 = resolve_location_cases
    [where s = "''Atlantis''" and float_of = float_sample and geolocator = "\<lambda>place. Inr None"]
  note t4 = resolve_location_cases
    [where s = "''Chennai, India''" and float_of = float_sample
       and geolocator = "\<lambda>place. Inr (Some (Finite 13, Finite 80))"]
  from t1 [THEN conjunct1, THEN mp, OF a] have p1: "resolve_location geolocator_down float_sample '' 1 , 2'' = Inr (Finite 1, Finite 2)
      \<and> collect_signals_for_location geolocator_down float_sample offline '' 1 , 2''
          = Inr (signals_at offline (Finite 1) (Finite 2))"
    by blast
  from t2 [THEN conjunct2, THEN conjunct1, THEN mp, OF b] have p2: "resolve_location geolocator_down float_sample ''Chennai, India''
      = Inl (Geocode_failure (Raised ''timeout''))"
    by (simp add: geolocator_down_def)
  from t2 [THEN conjunct2, THEN conjunct2] p2 have p3: "collect_signals_for_location geolocator_down float_sample offline ''Chennai, India''
      = Inl (Geocode_failure (Raised ''timeout''))"
    by blast
  from t3 [THEN conjunct2, THEN conjunct1, THEN mp, OF c] have p4: "resolve_location (\<lambda>place. Inr None) float_sample ''Atlantis''
      = Inl (Geocode_failure Could_not_geocode)"
    by simp
  from t4 [THEN conjunct2, THEN conjunct1, THEN mp, OF b] have p5: "resolve_location (\<lambda>place. Inr (Some (Finite 13, Finite 80))) float_sample
      ''Chennai, India'' = Inr (Finite 13, Finite 80)"
    by simp
  from p1 p2 p3 p4 p5 show ?thesis by blast
qed

text \<open>
  The claim as stated fails: the inputs "1,2,3" and "nan,inf" are not two finite floats
  separated by a comma, yet with a geocoder that is out of reach the assessment does not
  return an error; it runs at (1, 2) and at (nan, inf).
\<close>

theorem resolve_location_counterexample:
  "\<not> spec_float_pair float_sample ''1,2,3''
   \<and> collect_signals_for_location geolocator_down float_sample offline ''1,2,3''
       = Inr (signals_at offline (Finite 1) (Finite 2))
   \<and> \<not> spec_float_pair float_sample ''nan,inf''
   \<and> collect_signals_for_location geolocator_down float_sample offline ''nan,inf''
       = Inr (signals_at offline NaN PInf)"
  by (simp add: spec_float_pair_def collect_signals_for_location_def resolve_location_def
        literal_coordinate_def float_sample_def strip_def is_space_def)

end
